theory Spec2Isabelle
  imports Main "HOL-Library.Sublist"
begin

section \<open>The Kotlin code generator of atcoder-tools\<close>

text \<open>
  A shallow embedding of \<^verbatim>\<open>atcodertools/codegen/code_generators/kotlin.py\<close>.
  Every method of \<^verbatim>\<open>KotlinCodeGenerator\<close> is a function of the same name (without the
  leading underscore, which is not an identifier here). A Python exception is a value
  of type \<open>error\<close> on the left of a sum; a list comprehension whose body can raise stops
  at the first element that raises.
\<close>

subsection \<open>The data the generator reads\<close>

text \<open>
  The classes \<^verbatim>\<open>Type\<close>, \<^verbatim>\<open>Index\<close>, \<^verbatim>\<open>Variable\<close>, \<^verbatim>\<open>Pattern\<close>, \<^verbatim>\<open>Format\<close>,
  \<^verbatim>\<open>CodeStyleConfig\<close> and \<^verbatim>\<open>CodeGenArgs\<close> are imported by the generator; the model keeps of
  each exactly what the generator reads.

  \<^verbatim>\<open>Type\<close> is the enumeration with the members \<^verbatim>\<open>float\<close>, \<^verbatim>\<open>int\<close> and \<^verbatim>\<open>str\<close> (here with
  the suffix \<open>_type\<close>, \<open>int\<close> being the embedding of the naturals into the integers). The
  generator's final \<^verbatim>\<open>else: raise NotImplementedError\<close> after testing these three members
  is unreachable for a member of the enumeration, so the functions over \<open>Type\<close> are total.
\<close>

datatype Type = float_type | int_type | str_type

text \<open>
  An \<^verbatim>\<open>Index\<close> is read through \<^verbatim>\<open>get_length()\<close> only, and the result is only ever put
  into a string with \<^verbatim>\<open>'{}'.format\<close>: the model carries that text.
\<close>

datatype Index = Index (get_length: string)

text \<open>
  A \<^verbatim>\<open>Variable\<close> is read through \<^verbatim>\<open>name\<close>, \<^verbatim>\<open>type\<close>, \<^verbatim>\<open>first_index\<close>, \<^verbatim>\<open>second_index\<close>
  (each \<^verbatim>\<open>None\<close> or an \<^verbatim>\<open>Index\<close>) and the method \<^verbatim>\<open>dim_num()\<close>. The body of
  \<^verbatim>\<open>dim_num()\<close> is not part of the generator, so its result is a field of the record:
  the generator is modelled for whatever number the method returns.
\<close>

record Variable =
  name :: string
  type :: Type
  first_index :: "Index option"
  second_index :: "Index option"
  dim_num :: nat

text \<open>
  A \<^verbatim>\<open>Pattern\<close> is read through \<^verbatim>\<open>all_vars()\<close> and tested with \<^verbatim>\<open>isinstance\<close> against
  three of its subclasses; \<open>OtherPattern\<close> stands for an instance of any further subclass.
\<close>

datatype Pattern =
    SingularPattern "Variable list"
  | ParallelPattern "Variable list"
  | TwoDimensionalPattern "Variable list"
  | OtherPattern "Variable list"

fun all_vars :: "Pattern \<Rightarrow> Variable list" where
  "all_vars (SingularPattern vs) = vs"
| "all_vars (ParallelPattern vs) = vs"
| "all_vars (TwoDimensionalPattern vs) = vs"
| "all_vars (OtherPattern vs) = vs"

record Format =
  sequence :: "Pattern list"

text \<open>
  Modelled from the spec: \<^verbatim>\<open>Format.all_vars()\<close>, whose body is not part of the generator:
  the flattened, order-preserving concatenation of every pattern's variables.
\<close>

definition Format_all_vars :: "Format \<Rightarrow> Variable list" where
  "Format_all_vars fmt = concat (map all_vars (sequence fmt))"

text \<open>
  Of the style configuration the generator calls \<^verbatim>\<open>indent(1)\<close> only; the method is a
  field of the record.
\<close>

record CodeStyleConfig =
  indent :: "nat \<Rightarrow> string"

datatype error = NotImplementedError | IndexError | AttributeError

subsection \<open>Strings\<close>

text \<open>Python's \<^verbatim>\<open>sep.join(xs)\<close>.\<close>

fun join :: "string \<Rightarrow> string list \<Rightarrow> string" where
  "join sep [] = []"
| "join sep [x] = x"
| "join sep (x # y # ys) = x @ sep @ join sep (y # ys)"

text \<open>
  A list comprehension \<^verbatim>\<open>[f(x) for x in xs]\<close> whose body may raise: the elements are
  evaluated from left to right and the first exception ends the evaluation.
\<close>

fun comprehension :: "('a \<Rightarrow> error + 'b) \<Rightarrow> 'a list \<Rightarrow> error + 'b list" where
  "comprehension f [] = Inr []"
| "comprehension f (x # xs) =
     (case f x of
        Inl e \<Rightarrow> Inl e
      | Inr y \<Rightarrow> (case comprehension f xs of Inl e \<Rightarrow> Inl e | Inr ys \<Rightarrow> Inr (y # ys)))"

text \<open>
  \<^verbatim>\<open>x.get_length()\<close> where \<^verbatim>\<open>x\<close> is \<^verbatim>\<open>None\<close> or an \<^verbatim>\<open>Index\<close>: on \<^verbatim>\<open>None\<close> the attribute
  access raises.
\<close>

fun get_length_of :: "Index option \<Rightarrow> error + string" where
  "get_length_of None = Inl AttributeError"
| "get_length_of (Some ix) = Inr (get_length ix)"

subsection \<open>The lexical functions\<close>

fun convert_type :: "Type \<Rightarrow> string" where
  "convert_type float_type = ''Double''"
| "convert_type int_type = ''Long''"
| "convert_type str_type = ''String''"

definition get_declaration_type :: "Variable \<Rightarrow> string" where
  "get_declaration_type var =
     ((\<lambda>variable_type. ''Array<'' @ variable_type @ ''>'') ^^ dim_num var)
       (convert_type (type var))"

fun get_default_value_for_type :: "Type \<Rightarrow> string" where
  "get_default_value_for_type float_type = ''0.0''"
| "get_default_value_for_type int_type = ''0L''"
| "get_default_value_for_type str_type = [CHR 0x22, CHR 0x22]"

subsection \<open>Declarations and input statements\<close>

definition generate_declaration :: "Variable \<Rightarrow> error + string" where
  "generate_declaration var =
     (if dim_num var > 2 then Inl NotImplementedError
      else
        let declaration_type = get_declaration_type var in
        if dim_num var = 0 then Inr (''var '' @ name var @ '': '' @ declaration_type)
        else
          let dims = List.map_filter (\<lambda>n. n) [second_index var, first_index var];
              declaration =
                foldl (\<lambda>declaration dim.
                         ''Array(('' @ get_length dim @ '').toInt())'' @ ''{'' @ declaration @ ''}'')
                  (get_default_value_for_type (type var)) dims
          in Inr (''val '' @ name var @ '' = '' @ declaration))"

definition get_var_name :: "Variable \<Rightarrow> string" where
  "get_var_name var =
     foldl (\<lambda>name index_variable. name @ ''[('' @ index_variable @ '').toInt()]'')
       (name var) (take (dim_num var) [''i'', ''j''])"

definition input_code_for_var :: "Variable \<Rightarrow> string" where
  "input_code_for_var var =
     (let name = get_var_name var in
      case type var of
        float_type \<Rightarrow> name @ '' = sc.nextDouble()''
      | int_type \<Rightarrow> name @ '' = sc.nextLong()''
      | str_type \<Rightarrow> name @ '' = sc.next()'')"

subsection \<open>Loops and patterns\<close>

definition wrap_with_loop :: "CodeStyleConfig \<Rightarrow> string list \<Rightarrow> string \<Rightarrow> string \<Rightarrow> string list" where
  "wrap_with_loop config lines loop_variable loop_length =
     [''for ('' @ loop_variable @ '' in 0 until '' @ loop_length @ '') {'']
     @ map (\<lambda>line. indent config 1 @ line) lines
     @ [''}'']"

definition render_pattern :: "CodeStyleConfig \<Rightarrow> Pattern \<Rightarrow> error + string list" where
  "render_pattern config pattern =
     (case comprehension generate_declaration (all_vars pattern) of
        Inl e \<Rightarrow> Inl e
      | Inr lines \<Rightarrow>
          (case all_vars pattern of
             [] \<Rightarrow> Inl IndexError
           | representative_var # _ \<Rightarrow>
               (case pattern of
                  SingularPattern _ \<Rightarrow>
                    Inr (lines @ [input_code_for_var representative_var])
                | ParallelPattern _ \<Rightarrow>
                    (case get_length_of (first_index representative_var) of
                       Inl e \<Rightarrow> Inl e
                     | Inr first_length \<Rightarrow>
                         Inr (lines @ wrap_with_loop config
                                (map input_code_for_var (all_vars pattern)) ''i'' first_length))
                | TwoDimensionalPattern _ \<Rightarrow>
                    (case get_length_of (second_index representative_var) of
                       Inl e \<Rightarrow> Inl e
                     | Inr second_length \<Rightarrow>
                         let inner_loop = wrap_with_loop config
                               (map input_code_for_var (all_vars pattern)) ''j'' second_length
                         in (case get_length_of (first_index representative_var) of
                               Inl e \<Rightarrow> Inl e
                             | Inr first_length \<Rightarrow>
                                 Inr (lines @ wrap_with_loop config inner_loop ''i'' first_length)))
                | OtherPattern _ \<Rightarrow> Inr lines)))"

subsection \<open>The parameters of the template\<close>

definition actual_arguments :: "Format \<Rightarrow> string" where
  "actual_arguments fmt = join '', '' (map name (Format_all_vars fmt))"

definition formal_arguments :: "Format \<Rightarrow> string" where
  "formal_arguments fmt =
     join '', '' (map (\<lambda>v. name v @ '': '' @ get_declaration_type v) (Format_all_vars fmt))"

definition input_part :: "CodeStyleConfig \<Rightarrow> Format \<Rightarrow> error + string" where
  "input_part config fmt =
     (case comprehension (render_pattern config) (sequence fmt) of
        Inl e \<Rightarrow> Inl e
      | Inr blocks \<Rightarrow> Inr (join (CHR 0x0A # indent config 1) (concat blocks)))"

text \<open>The values a template parameter can take, and a keyword dictionary in insertion order.\<close>

datatype pyval = PyNone | PyBool bool | PyInt int | PyStr string

type_synonym pydict = "(string \<times> pyval) list"

definition generate_parameters :: "CodeStyleConfig \<Rightarrow> Format option \<Rightarrow> error + pydict" where
  "generate_parameters config format_opt =
     (case format_opt of
        None \<Rightarrow> Inr [(''prediction_success'', PyBool False)]
      | Some fmt \<Rightarrow>
          (case input_part config fmt of
             Inl e \<Rightarrow> Inl e
           | Inr text \<Rightarrow>
               Inr [(''formal_arguments'', PyStr (formal_arguments fmt)),
                    (''actual_arguments'', PyStr (actual_arguments fmt)),
                    (''input_part'', PyStr text),
                    (''prediction_success'', PyBool True)]))"

text \<open>
  \<^verbatim>\<open>args.constants\<close> is read through \<^verbatim>\<open>mod\<close>, \<^verbatim>\<open>yes_str\<close> and \<^verbatim>\<open>no_str\<close>; \<open>mod\<close> is the
  remainder operator here, hence \<open>mod_value\<close>.
\<close>

record ProblemConstantSet =
  mod_value :: pyval
  yes_str :: pyval
  no_str :: pyval

record CodeGenArgs =
  template :: string
  format :: "Format option"
  constants :: ProblemConstantSet
  config :: CodeStyleConfig

text \<open>
  \<^verbatim>\<open>render\<close> is the template engine, a parameter of the model: it receives the template and
  the keyword arguments, the three constants first and the code parameters after them.
\<close>

definition main :: "(string \<Rightarrow> pydict \<Rightarrow> string) \<Rightarrow> CodeGenArgs \<Rightarrow> error + string" where
  "main render args =
     (case generate_parameters (config args) (format args) of
        Inl e \<Rightarrow> Inl e
      | Inr code_parameters \<Rightarrow>
          Inr (render (template args)
                 ([(''mod'', mod_value (constants args)),
                   (''yes_str'', yes_str (constants args)),
                   (''no_str'', no_str (constants args))] @ code_parameters)))"

subsection \<open>Reading the generated lines\<close>

text \<open>
  A generated line is a read statement when it ends in the assignment of one of the three
  read expressions.
\<close>

definition is_read_statement :: "string \<Rightarrow> bool" where
  "is_read_statement line \<longleftrightarrow>
     suffix '' = sc.nextDouble()'' line
     \<or> suffix '' = sc.nextLong()'' line
     \<or> suffix '' = sc.next()'' line"

text \<open>
  The indentation of a generated line is the number of spaces and tabs it starts with.
\<close>

definition indentation :: "string \<Rightarrow> nat" where
  "indentation line = length (takeWhile (\<lambda>c. c = CHR '' '' \<or> c = CHR 0x09) line)"

text \<open>
  What the renderer relies on in a pattern of a supported variant; each condition follows
  from the invariants of the pattern model.
\<close>

fun supported_pattern :: "Pattern \<Rightarrow> bool" where
  "supported_pattern (SingularPattern vs) = (length vs = 1 \<and> (\<forall>v\<in>set vs. dim_num v \<le> 2))"
| "supported_pattern (ParallelPattern vs) =
     (vs \<noteq> [] \<and> (\<forall>v\<in>set vs. dim_num v \<le> 2) \<and> first_index (hd vs) \<noteq> None)"
| "supported_pattern (TwoDimensionalPattern vs) =
     (vs \<noteq> [] \<and> (\<forall>v\<in>set vs. dim_num v \<le> 2)
      \<and> first_index (hd vs) \<noteq> None \<and> second_index (hd vs) \<noteq> None)"
| "supported_pattern (OtherPattern vs) = False"

subsection \<open>Example inputs\<close>

text \<open>
  An indentation unit of four spaces, a scalar \<open>N\<close>, an array \<open>A\<close> of length \<open>N\<close>, a grid
  \<open>G\<close> of \<open>H\<close> rows and \<open>W\<close> columns, and a variable \<open>T\<close> whose \<^verbatim>\<open>dim_num()\<close> is 3;
  a format that reads \<open>N\<close> and then \<open>A\<close> twice in one loop; arguments of \<^verbatim>\<open>main\<close> around
  a given format.
\<close>

definition example_config :: CodeStyleConfig where
  "example_config = \<lparr>indent = (\<lambda>level. replicate (4 * level) CHR '' '')\<rparr>"

text \<open>The style configuration of indentation width 0: every indentation is empty.\<close>

definition zero_width_config :: CodeStyleConfig where
  "zero_width_config = \<lparr>indent = (\<lambda>level. [])\<rparr>"

definition var_N :: Variable where
  "var_N = \<lparr>name = ''N'', type = int_type, first_index = None, second_index = None, dim_num = 0\<rparr>"

definition var_A :: Variable where
  "var_A = \<lparr>name = ''A'', type = int_type, first_index = Some (Index ''N''), second_index = None, dim_num = 1\<rparr>"

definition var_G :: Variable where
  "var_G = \<lparr>name = ''G'', type = str_type, first_index = Some (Index ''H''), second_index = Some (Index ''W''), dim_num = 2\<rparr>"

definition var_T :: Variable where
  "var_T = \<lparr>name = ''T'', type = float_type, first_index = Some (Index ''H''), second_index = Some (Index ''W''), dim_num = 3\<rparr>"

definition example_format :: Format where
  "example_format =
     \<lparr>sequence = [SingularPattern [var_N], ParallelPattern [var_A, var_A]]\<rparr>"

definition example_args :: "Format option \<Rightarrow> CodeGenArgs" where
  "example_args fmt =
     \<lparr>template = ''{{ input_part }}'', format = fmt,
      constants = \<lparr>mod_value = PyInt 998244353, yes_str = PyStr ''Yes'', no_str = PyNone\<rparr>,
      config = example_config\<rparr>"

text \<open>A template engine that prints the string bound to \<^verbatim>\<open>yes_str\<close>, whatever the template.\<close>

definition example_render :: "string \<Rightarrow> pydict \<Rightarrow> string" where
  "example_render text kwargs =
     (case map_of kwargs ''yes_str'' of Some (PyStr s) \<Rightarrow> s | _ \<Rightarrow> [])"

section \<open>Properties\<close>

subsection \<open>List comprehensions and declarations\<close>

lemma comprehension_Inr_iff:
  "comprehension f xs = Inr ys \<longleftrightarrow> map f xs = map Inr ys"
proof (induction xs arbitrary: ys)
  case Nil
  then show ?case by auto
next
  case (Cons x xs)
  show ?case
  proof (cases "f x")
    case (Inl e)
    then show ?thesis by (cases ys) auto
  next
    case (Inr y)
    show ?thesis
    proof (cases "comprehension f xs")
      case (Inl e)
      with Inr Cons.IH show ?thesis by (cases ys) auto
    next
      case r: (Inr zs)
      with Inr Cons.IH [of zs] show ?thesis by (cases ys) auto
    qed
  qed
qed

lemma comprehension_Inl:
  "comprehension f xs = Inl e \<Longrightarrow> \<exists>x\<in>set xs. f x = Inl e"
  by (induction xs) (auto split: sum.splits)

lemma comprehension_total:
  "(\<forall>x\<in>set xs. \<exists>y. f x = Inr y) \<Longrightarrow> \<exists>ys. comprehension f xs = Inr ys"
  by (induction xs) (auto split: sum.splits)

lemma generate_declaration_error:
  "generate_declaration v = Inl e \<Longrightarrow> e = NotImplementedError \<and> dim_num v > 2"
  by (auto simp: generate_declaration_def Let_def split: if_splits)

lemma generate_declaration_fails:
  "dim_num v > 2 \<Longrightarrow> generate_declaration v = Inl NotImplementedError"
  by (simp add: generate_declaration_def)

lemma generate_declaration_returns:
  "dim_num v \<le> 2 \<Longrightarrow> \<exists>d. generate_declaration v = Inr d"
  by (simp add: generate_declaration_def Let_def)

lemma declarations_return:
  "\<forall>v\<in>set vs. dim_num v \<le> 2 \<Longrightarrow> \<exists>ds. comprehension generate_declaration vs = Inr ds"
  by (rule comprehension_total) (simp add: generate_declaration_returns)

lemma declarations_fail:
  assumes "v \<in> set vs" and "dim_num v > 2"
  shows "comprehension generate_declaration vs = Inl NotImplementedError"
proof (cases "comprehension generate_declaration vs")
  case (Inl e)
  then obtain u where "u \<in> set vs" and "generate_declaration u = Inl e"
    using comprehension_Inl by blast
  then have "e = NotImplementedError"
    using generate_declaration_error by blast
  with Inl show ?thesis by simp
next
  case (Inr ds)
  then have "map generate_declaration vs = map Inr ds"
    by (simp add: comprehension_Inr_iff)
  then have "generate_declaration v \<in> set (map Inr ds)"
    using assms(1) by (metis image_eqI set_map)
  with assms(2) show ?thesis
    by (auto simp: generate_declaration_fails)
qed

lemma comprehension_length:
  "comprehension f xs = Inr ys \<Longrightarrow> length ys = length xs"
  by (metis comprehension_Inr_iff length_map)

lemma comprehension_nth:
  assumes "comprehension f xs = Inr ys" and "k < length xs"
  shows "f (xs ! k) = Inr (ys ! k)"
proof -
  have "map f xs = map Inr ys"
    using assms(1) by (simp add: comprehension_Inr_iff)
  then have "map f xs ! k = map Inr ys ! k" by simp
  moreover have "k < length ys"
    using assms comprehension_length by fastforce
  ultimately show ?thesis using assms(2) by simp
qed

lemma comprehension_elements:
  assumes "comprehension f xs = Inr ys" and "y \<in> set ys"
  shows "\<exists>x\<in>set xs. f x = Inr y"
proof -
  from assms(2) obtain k where k: "k < length ys" "ys ! k = y"
    by (auto simp: in_set_conv_nth)
  with assms(1) have "k < length xs"
    by (simp add: comprehension_length)
  with assms(1) k show ?thesis
    using comprehension_nth nth_mem by fastforce
qed

lemma render_two_dimensional:
  assumes "comprehension generate_declaration (rv # vs) = Inr decls"
    and "first_index rv = Some d1" and "second_index rv = Some d2"
  shows "render_pattern cfg (TwoDimensionalPattern (rv # vs)) =
           Inr (decls
                @ [''for (i in 0 until '' @ get_length d1 @ '') {'']
                @ map (\<lambda>line. indent cfg 1 @ line)
                    ([''for (j in 0 until '' @ get_length d2 @ '') {'']
                     @ map (\<lambda>line. indent cfg 1 @ line) (map input_code_for_var (rv # vs))
                     @ [''}''])
                @ [''}''])"
  using assms by (simp add: render_pattern_def wrap_with_loop_def)

lemma render_parallel:
  assumes "comprehension generate_declaration (rv # vs) = Inr decls"
    and "first_index rv = Some d1"
  shows "render_pattern cfg (ParallelPattern (rv # vs)) =
           Inr (decls
                @ [''for (i in 0 until '' @ get_length d1 @ '') {'']
                @ map (\<lambda>line. indent cfg 1 @ line) (map input_code_for_var (rv # vs))
                @ [''}''])"
  using assms by (simp add: render_pattern_def wrap_with_loop_def)

lemma render_singular:
  assumes "comprehension generate_declaration (rv # vs) = Inr decls"
  shows "render_pattern cfg (SingularPattern (rv # vs)) = Inr (decls @ [input_code_for_var rv])"
  using assms by (simp add: render_pattern_def)

subsection \<open>Read statements among the generated lines\<close>

lemma read_statement_last:
  assumes "is_read_statement line"
  shows "line \<noteq> [] \<and> last line = CHR '')''"
  using assms unfolding is_read_statement_def suffix_def by auto

lemma read_statement_input_code: "is_read_statement (input_code_for_var v)"
  by (cases "type v") (simp_all add: is_read_statement_def input_code_for_var_def suffix_def)

lemma read_statement_indented: "is_read_statement line \<Longrightarrow> is_read_statement (ind @ line)"
  by (auto simp: is_read_statement_def intro: suffix_appendI)

lemma declaration_type_last:
  "get_declaration_type v \<noteq> [] \<and> last (get_declaration_type v) \<noteq> CHR '')''"
  by (cases "dim_num v"; cases "type v") (simp_all add: get_declaration_type_def)

lemma default_value_last:
  "get_default_value_for_type t \<noteq> [] \<and> last (get_default_value_for_type t) \<noteq> CHR '')''"
  by (cases t) simp_all

lemma array_declaration_last:
  assumes "d \<noteq> []" and "last d \<noteq> CHR '')''"
  shows "foldl (\<lambda>declaration dim.
                  ''Array(('' @ get_length dim @ '').toInt())'' @ ''{'' @ declaration @ ''}'')
           d dims \<noteq> []
         \<and> last (foldl (\<lambda>declaration dim.
                         ''Array(('' @ get_length dim @ '').toInt())'' @ ''{'' @ declaration @ ''}'')
                  d dims) \<noteq> CHR '')''"
  using assms by (induction dims arbitrary: d) auto

lemma declaration_not_read:
  assumes "generate_declaration v = Inr d"
  shows "\<not> is_read_statement d"
proof
  assume "is_read_statement d"
  then have l: "d \<noteq> []" "last d = CHR '')''"
    using read_statement_last by auto
  show False
  proof (cases "dim_num v = 0")
    case True
    with assms have "d = ''var '' @ name v @ '': '' @ get_declaration_type v"
      by (simp add: generate_declaration_def)
    with l declaration_type_last [of v] show False by simp
  next
    case False
    define dims where "dims = List.map_filter (\<lambda>n. n) [second_index v, first_index v]"
    define body where "body =
      foldl (\<lambda>declaration dim. ''Array(('' @ get_length dim @ '').toInt())'' @ ''{'' @ declaration @ ''}'')
        (get_default_value_for_type (type v)) dims"
    from False assms have "d = ''val '' @ name v @ '' = '' @ body"
      by (simp add: generate_declaration_def body_def dims_def split: if_splits)
    moreover have "body \<noteq> [] \<and> last body \<noteq> CHR '')''"
      unfolding body_def
      using array_declaration_last [of "get_default_value_for_type (type v)" dims]
        default_value_last [of "type v"] by simp
    ultimately show False using l by simp
  qed
qed

lemma filter_none: "(\<forall>x\<in>set xs. \<not> P x) \<Longrightarrow> filter P xs = []"
  by (induction xs) auto

lemma declarations_not_read:
  assumes "comprehension generate_declaration vs = Inr decls"
  shows "filter is_read_statement decls = []"
proof (rule filter_none, rule ballI)
  fix d assume "d \<in> set decls"
  from comprehension_elements [OF assms this] obtain v where "generate_declaration v = Inr d"
    by auto
  then show "\<not> is_read_statement d"
    by (rule declaration_not_read)
qed

lemma not_read_statement:
  "last line \<noteq> CHR '')'' \<Longrightarrow> is_read_statement line = False"
  using read_statement_last by auto

lemma reads_all_read:
  "filter is_read_statement (map (\<lambda>line. ind @ line) (map input_code_for_var vs)) =
     map (\<lambda>line. ind @ line) (map input_code_for_var vs)"
  by (induction vs) (simp_all add: read_statement_indented read_statement_input_code)

lemma reads_all_read2:
  "filter is_read_statement
     (map (\<lambda>line. ind @ line) (map (\<lambda>line. ind' @ line) (map input_code_for_var vs))) =
     map (\<lambda>line. ind @ line) (map (\<lambda>line. ind' @ line) (map input_code_for_var vs))"
  by (induction vs) (simp_all add: read_statement_indented read_statement_input_code)

subsection \<open>Indentation of the loop headers\<close>

lemma indentation_header:
  "indentation (''for ('' @ x @ '' in 0 until '' @ n @ '') {'') = 0"
  by (simp add: indentation_def)

lemma indentation_indented_header:
  assumes "\<forall>c\<in>set unit. c = CHR '' '' \<or> c = CHR 0x09"
  shows "indentation (unit @ ''for ('' @ x @ '' in 0 until '' @ n @ '') {'') = length unit"
  using assms by (simp add: indentation_def takeWhile_append2)

subsection \<open>Declarations within the rendered blocks\<close>

lemma render_pattern_declarations:
  assumes "render_pattern cfg p = Inr block"
  shows "\<exists>decls. comprehension generate_declaration (all_vars p) = Inr decls \<and> prefix decls block"
proof (cases "comprehension generate_declaration (all_vars p)")
  case (Inl e)
  with assms show ?thesis by (simp add: render_pattern_def)
next
  case (Inr decls)
  with assms have "prefix decls block"
    by (auto simp: render_pattern_def Let_def split: list.splits Pattern.splits sum.splits)
  with Inr show ?thesis by blast
qed

lemma comprehension_append:
  "comprehension f xs = Inr ys \<Longrightarrow> comprehension f xs' = Inr ys' \<Longrightarrow>
   comprehension f (xs @ xs') = Inr (ys @ ys')"
  by (simp add: comprehension_Inr_iff)

lemma blocks_declarations:
  assumes "comprehension (render_pattern cfg) ps = Inr blocks"
  shows "\<exists>groups. list_all2 prefix groups blocks
           \<and> map (\<lambda>p. comprehension generate_declaration (all_vars p)) ps = map Inr groups
           \<and> comprehension generate_declaration (concat (map all_vars ps)) = Inr (concat groups)"
  using assms
proof (induction ps arbitrary: blocks)
  case Nil
  then show ?case by simp
next
  case (Cons p ps)
  from Cons.prems obtain b bs where b: "render_pattern cfg p = Inr b"
    and bs: "comprehension (render_pattern cfg) ps = Inr bs" and blocks: "blocks = b # bs"
    by (auto split: sum.splits)
  from render_pattern_declarations [OF b] obtain decls
    where d: "comprehension generate_declaration (all_vars p) = Inr decls" "prefix decls b"
    by blast
  from Cons.IH [OF bs] obtain groups where g: "list_all2 prefix groups bs"
    "map (\<lambda>p. comprehension generate_declaration (all_vars p)) ps = map Inr groups"
    "comprehension generate_declaration (concat (map all_vars ps)) = Inr (concat groups)"
    by blast
  have "list_all2 prefix (decls # groups) blocks"
    using d g blocks by simp
  moreover have "map (\<lambda>p. comprehension generate_declaration (all_vars p)) (p # ps) =
      map Inr (decls # groups)"
    using d g by simp
  moreover have "comprehension generate_declaration (concat (map all_vars (p # ps))) =
      Inr (concat (decls # groups))"
    using comprehension_append [OF d(1) g(3)] by simp
  ultimately show ?case by blast
qed

lemma generate_parameters_keys:
  assumes "generate_parameters cfg fmt = Inr code_parameters"
  shows "map fst code_parameters = [''prediction_success'']
         \<or> map fst code_parameters =
             [''formal_arguments'', ''actual_arguments'', ''input_part'', ''prediction_success'']"
  using assms by (auto simp: generate_parameters_def split: option.splits sum.splits)

section \<open>The claims\<close>

text \<open>
  Claim C1, as amended. A \<^verbatim>\<open>TwoDimensionalPattern\<close> with at least one variable, none
  beyond two dimensions, whose first variable has both indices, renders to the
  declarations of its variables, outside any loop, followed by the \<^verbatim>\<open>i\<close> loop over the
  length of the first index; the body of the \<^verbatim>\<open>i\<close> loop is the \<^verbatim>\<open>j\<close> loop over the length
  of the second index, each of its lines behind one configured indentation unit
  \<^verbatim>\<open>indent(1)\<close>, and the body of the \<^verbatim>\<open>j\<close> loop is the read statements, behind one further
  unit. The \<^verbatim>\<open>j\<close> loop closes on the line before the last, the \<^verbatim>\<open>i\<close> loop on the last
  line. The \<^verbatim>\<open>i\<close> header has indentation 0; when the unit is made of spaces and tabs, the
  \<^verbatim>\<open>j\<close> header has the indentation of the length of the unit, which is strictly more
  than that of the \<^verbatim>\<open>i\<close> header when the unit is not empty.
\<close>

theorem two_dimensional_nesting:
  assumes "\<forall>v\<in>set (rv # vs). dim_num v \<le> 2"
    and "first_index rv = Some d1" and "second_index rv = Some d2"
  shows "\<exists>decls. comprehension generate_declaration (rv # vs) = Inr decls
           \<and> length decls = length (rv # vs)
           \<and> render_pattern cfg (TwoDimensionalPattern (rv # vs)) =
               Inr (decls
                    @ [''for (i in 0 until '' @ get_length d1 @ '') {'']
                    @ map (\<lambda>line. indent cfg 1 @ line)
                        ([''for (j in 0 until '' @ get_length d2 @ '') {'']
                         @ map (\<lambda>line. indent cfg 1 @ line) (map input_code_for_var (rv # vs))
                         @ [''}''])
                    @ [''}''])
           \<and> indentation (''for (i in 0 until '' @ get_length d1 @ '') {'') = 0
           \<and> ((\<forall>c\<in>set (indent cfg 1). c = CHR '' '' \<or> c = CHR 0x09) \<longrightarrow>
                indentation (indent cfg 1 @ ''for (j in 0 until '' @ get_length d2 @ '') {'')
                  = length (indent cfg 1))
           \<and> ((\<forall>c\<in>set (indent cfg 1). c = CHR '' '' \<or> c = CHR 0x09) \<and> indent cfg 1 \<noteq> [] \<longrightarrow>
                indentation (''for (i in 0 until '' @ get_length d1 @ '') {'')
                  < indentation (indent cfg 1 @ ''for (j in 0 until '' @ get_length d2 @ '') {''))"
proof -
  from assms(1) obtain decls where d: "comprehension generate_declaration (rv # vs) = Inr decls"
    using declarations_return by blast
  then have "length decls = length (rv # vs)"
    by (rule comprehension_length)
  moreover note d render_two_dimensional [OF d assms(2) assms(3), of cfg]
    indentation_header [of "''i''" "get_length d1"]
  moreover have "(\<forall>c\<in>set (indent cfg 1). c = CHR '' '' \<or> c = CHR 0x09) \<longrightarrow>
      indentation (indent cfg 1 @ ''for (j in 0 until '' @ get_length d2 @ '') {'')
        = length (indent cfg 1)"
    using indentation_indented_header [of "indent cfg 1" "''j''" "get_length d2"] by simp
  moreover have "(\<forall>c\<in>set (indent cfg 1). c = CHR '' '' \<or> c = CHR 0x09) \<and> indent cfg 1 \<noteq> [] \<longrightarrow>
      indentation (''for (i in 0 until '' @ get_length d1 @ '') {'')
        < indentation (indent cfg 1 @ ''for (j in 0 until '' @ get_length d2 @ '') {'')"
    using indentation_indented_header [of "indent cfg 1" "''j''" "get_length d2"]
      indentation_header [of "''i''" "get_length d1"] by simp
  ultimately show ?thesis
    by (intro exI [of _ decls] conjI) simp_all
qed

theorem two_dimensional_nesting_witness:
  "render_pattern example_config (TwoDimensionalPattern [var_G]) =
     Inr [''val G = Array((H).toInt()){Array((W).toInt()){'' @ [CHR 0x22, CHR 0x22] @ ''}}'',
          ''for (i in 0 until H) {'',
          ''    for (j in 0 until W) {'',
          ''        G[(i).toInt()][(j).toInt()] = sc.next()'',
          ''    }'',
          ''}'']
   \<and> indent example_config 1 = ''    ''
   \<and> indentation ''for (i in 0 until H) {'' = 0
   \<and> indentation ''    for (j in 0 until W) {'' = 4
   \<and> indentation ''for (i in 0 until H) {'' < indentation ''    for (j in 0 until W) {''"
  using two_dimensional_nesting [of var_G "[]" "Index ''H''" "Index ''W''" example_config]
  by (simp add: var_G_def example_config_def generate_declaration_def get_declaration_type_def
        List.map_filter_simps input_code_for_var_def get_var_name_def eval_nat_numeral)

text \<open>
  Claim C1 as stated fails for an empty indentation unit: with indentation width 0 the
  \<^verbatim>\<open>j\<close> header is inside the \<^verbatim>\<open>i\<close> loop but starts in the same column as the \<^verbatim>\<open>i\<close> header.
\<close>

theorem two_dimensional_zero_indent_counterexample:
  "render_pattern zero_width_config (TwoDimensionalPattern [var_G]) =
     Inr [''val G = Array((H).toInt()){Array((W).toInt()){'' @ [CHR 0x22, CHR 0x22] @ ''}}'',
          ''for (i in 0 until H) {'',
          ''for (j in 0 until W) {'',
          ''G[(i).toInt()][(j).toInt()] = sc.next()'',
          ''}'',
          ''}'']
   \<and> \<not> indentation ''for (i in 0 until H) {'' < indentation ''for (j in 0 until W) {''"
  by (simp add: render_pattern_def wrap_with_loop_def zero_width_config_def var_G_def
        generate_declaration_def get_declaration_type_def List.map_filter_simps
        input_code_for_var_def get_var_name_def indentation_def)

text \<open>
  Claim C2. A variable whose \<^verbatim>\<open>dim_num()\<close> is 0 is declared as a mutable scalar
  \<^verbatim>\<open>var name: Type\<close> with no initializer. A variable with one index (\<^verbatim>\<open>dim_num()\<close> 1)
  or two (\<^verbatim>\<open>dim_num()\<close> 2) is declared as \<^verbatim>\<open>val name = Array((len).toInt()){...}\<close>: a
  newly allocated array of the length of the index, each element the default value of
  the type, the outer array over \<^verbatim>\<open>first_index\<close> and the inner one over \<^verbatim>\<open>second_index\<close>.
  The default values are \<^verbatim>\<open>0.0\<close>, \<^verbatim>\<open>0L\<close> (the zero of Kotlin's \<^verbatim>\<open>Long\<close>) and the empty
  string literal.
\<close>

theorem declaration_shapes:
  "(dim_num v = 0 \<longrightarrow>
      generate_declaration v = Inr (''var '' @ name v @ '': '' @ convert_type (type v)))
   \<and> (dim_num v = 1 \<and> first_index v = Some d1 \<and> second_index v = None \<longrightarrow>
      generate_declaration v =
        Inr (''val '' @ name v @ '' = Array(('' @ get_length d1 @ '').toInt()){''
             @ get_default_value_for_type (type v) @ ''}''))
   \<and> (dim_num v = 2 \<and> first_index v = Some d1 \<and> second_index v = Some d2 \<longrightarrow>
      generate_declaration v =
        Inr (''val '' @ name v @ '' = Array(('' @ get_length d1 @ '').toInt()){''
             @ ''Array(('' @ get_length d2 @ '').toInt()){''
             @ get_default_value_for_type (type v) @ ''}'' @ ''}''))
   \<and> get_default_value_for_type float_type = ''0.0''
   \<and> get_default_value_for_type int_type = ''0L''
   \<and> get_default_value_for_type str_type = [CHR 0x22, CHR 0x22]"
  by (simp add: generate_declaration_def get_declaration_type_def List.map_filter_simps)

theorem declaration_shapes_witness:
  "generate_declaration var_N = Inr ''var N: Long''
   \<and> generate_declaration var_A = Inr ''val A = Array((N).toInt()){0L}''
   \<and> generate_declaration var_G =
       Inr (''val G = Array((H).toInt()){Array((W).toInt()){'' @ [CHR 0x22, CHR 0x22] @ ''}}'')"
  using declaration_shapes [of var_N] declaration_shapes [of var_A "Index ''N''"]
    declaration_shapes [of var_G "Index ''H''" "Index ''W''"]
  by (simp add: var_N_def var_A_def var_G_def)

text \<open>
  Claim C3. A pattern that is an instance of none of the three tested classes falls
  through the \<^verbatim>\<open>if\<close>/\<^verbatim>\<open>elif\<close> chain, which has no \<^verbatim>\<open>else\<close>: rendering returns the
  declarations alone and raises nothing.
\<close>

theorem other_variant_returns_declarations:
  "render_pattern example_config (OtherPattern [var_N]) = Inr [''var N: Long'']"
  by (simp add: render_pattern_def generate_declaration_def get_declaration_type_def var_N_def)

text \<open>
  Claim C4. For a variable whose \<^verbatim>\<open>dim_num()\<close> exceeds 2 the declaration raises
  \<^verbatim>\<open>NotImplementedError\<close> (the spec's UnsupportedShape) and returns no text, and rendering
  any pattern that contains the variable raises the same error: no line of the pattern
  is returned.
\<close>

theorem unsupported_shape_fails:
  "dim_num v > 2 \<longrightarrow>
     generate_declaration v = Inl NotImplementedError
     \<and> (v \<in> set (all_vars p) \<longrightarrow> render_pattern cfg p = Inl NotImplementedError)"
  by (auto simp: generate_declaration_fails render_pattern_def declarations_fail)

theorem unsupported_shape_fails_witness:
  "dim_num var_T > 2
   \<and> generate_declaration var_T = Inl NotImplementedError
   \<and> render_pattern example_config (TwoDimensionalPattern [var_G, var_T]) = Inl NotImplementedError"
  using unsupported_shape_fails [of var_T "TwoDimensionalPattern [var_G, var_T]" example_config]
  by (simp add: var_T_def)

text \<open>
  Claim C5. The input statement of a variable is the assignment of the read expression
  of its type (\<^verbatim>\<open>sc.nextDouble()\<close> for float, \<^verbatim>\<open>sc.nextLong()\<close> for int, \<^verbatim>\<open>sc.next()\<close> for
  string) to the variable's name, which carries no index for a scalar, the index \<^verbatim>\<open>i\<close>
  for one dimension and the indices \<^verbatim>\<open>i\<close> then \<^verbatim>\<open>j\<close> for two.
\<close>

theorem input_statement_shape:
  "input_code_for_var v =
     get_var_name v @ '' = ''
     @ (case type v of
          float_type \<Rightarrow> ''sc.nextDouble()''
        | int_type \<Rightarrow> ''sc.nextLong()''
        | str_type \<Rightarrow> ''sc.next()'')
   \<and> (dim_num v = 0 \<longrightarrow> get_var_name v = name v)
   \<and> (dim_num v = 1 \<longrightarrow> get_var_name v = name v @ ''[(i).toInt()]'')
   \<and> (dim_num v \<ge> 2 \<longrightarrow> get_var_name v = name v @ ''[(i).toInt()]'' @ ''[(j).toInt()]'')"
  by (simp add: input_code_for_var_def get_var_name_def split: Type.split)

theorem input_statement_shape_witness:
  "input_code_for_var var_N = ''N = sc.nextLong()''
   \<and> input_code_for_var var_A = ''A[(i).toInt()] = sc.nextLong()''
   \<and> input_code_for_var var_G = ''G[(i).toInt()][(j).toInt()] = sc.next()''"
  using input_statement_shape [of var_N] input_statement_shape [of var_A]
    input_statement_shape [of var_G]
  by (simp add: var_N_def var_A_def var_G_def)

text \<open>
  Claim C6. The actual arguments are the names of \<^verbatim>\<open>Format.all_vars()\<close> joined by a comma
  and a space, the formal arguments the entries \<^verbatim>\<open>name: declaredType\<close> of the same list
  joined the same way: same order, same length, nothing merged. The list is the
  concatenation of the patterns' variables, and when the patterns render, every
  pattern's block starts with the declarations of its variables, so that the
  declarations appear in the order of the argument lists.
\<close>

theorem argument_lists_follow_all_vars:
  "actual_arguments fmt = join '', '' (map name (Format_all_vars fmt))
   \<and> formal_arguments fmt =
       join '', '' (map (\<lambda>v. name v @ '': '' @ get_declaration_type v) (Format_all_vars fmt))
   \<and> Format_all_vars fmt = concat (map all_vars (sequence fmt))
   \<and> (\<forall>blocks. comprehension (render_pattern cfg) (sequence fmt) = Inr blocks \<longrightarrow>
        (\<exists>groups. list_all2 prefix groups blocks
           \<and> map (\<lambda>p. comprehension generate_declaration (all_vars p)) (sequence fmt)
               = map Inr groups
           \<and> comprehension generate_declaration (Format_all_vars fmt) = Inr (concat groups)))"
  using blocks_declarations [of cfg "sequence fmt"]
  by (simp add: actual_arguments_def formal_arguments_def Format_all_vars_def)

theorem argument_lists_follow_all_vars_witness:
  "actual_arguments example_format = ''N, A, A''
   \<and> formal_arguments example_format = ''N: Long, A: Array<Long>, A: Array<Long>''
   \<and> Format_all_vars example_format = [var_N, var_A, var_A]
   \<and> (\<exists>groups.
         list_all2 prefix groups
           [ [''var N: Long'', ''N = sc.nextLong()''],
            [''val A = Array((N).toInt()){0L}'', ''val A = Array((N).toInt()){0L}'',
             ''for (i in 0 until N) {'', ''    A[(i).toInt()] = sc.nextLong()'',
             ''    A[(i).toInt()] = sc.nextLong()'', ''}''] ]
         \<and> comprehension generate_declaration [var_N, var_A, var_A] = Inr (concat groups))"
proof -
  have v: "Format_all_vars example_format = [var_N, var_A, var_A]"
    by (simp add: Format_all_vars_def example_format_def)
  have n: "name var_N = ''N''" "name var_A = ''A''"
    by (simp_all add: var_N_def var_A_def)
  have t: "get_declaration_type var_N = ''Long''" "get_declaration_type var_A = ''Array<Long>''"
    by (simp_all add: var_N_def var_A_def get_declaration_type_def)
  have d: "generate_declaration var_N = Inr ''var N: Long''"
    "generate_declaration var_A = Inr ''val A = Array((N).toInt()){0L}''"
    by (simp_all add: var_N_def var_A_def generate_declaration_def get_declaration_type_def
          List.map_filter_simps)
  have r: "input_code_for_var var_N = ''N = sc.nextLong()''"
    "input_code_for_var var_A = ''A[(i).toInt()] = sc.nextLong()''"
    by (simp_all add: var_N_def var_A_def input_code_for_var_def get_var_name_def)
  have i: "indent example_config (Suc 0) = ''    ''"
    by (simp add: example_config_def eval_nat_numeral)
  have f: "first_index var_A = Some (Index ''N'')"
    by (simp add: var_A_def)
  have blocks: "comprehension (render_pattern example_config) (sequence example_format) =
      Inr [ [''var N: Long'', ''N = sc.nextLong()''],
           [''val A = Array((N).toInt()){0L}'', ''val A = Array((N).toInt()){0L}'',
            ''for (i in 0 until N) {'', ''    A[(i).toInt()] = sc.nextLong()'',
            ''    A[(i).toInt()] = sc.nextLong()'', ''}''] ]"
    by (simp add: example_format_def render_pattern_def wrap_with_loop_def d r i f)
  note claim = argument_lists_follow_all_vars [of example_format example_config]
  from claim have "actual_arguments example_format = ''N, A, A''"
    by (simp add: v n)
  moreover from claim have "formal_arguments example_format =
      ''N: Long, A: Array<Long>, A: Array<Long>''"
    by (simp add: v n t)
  moreover from claim blocks obtain groups where
    "list_all2 prefix groups
       [ [''var N: Long'', ''N = sc.nextLong()''],
        [''val A = Array((N).toInt()){0L}'', ''val A = Array((N).toInt()){0L}'',
         ''for (i in 0 until N) {'', ''    A[(i).toInt()] = sc.nextLong()'',
         ''    A[(i).toInt()] = sc.nextLong()'', ''}''] ]"
    "comprehension generate_declaration (Format_all_vars example_format) = Inr (concat groups)"
    by blast
  ultimately show ?thesis
    unfolding v by blast
qed

text \<open>
  Claim C7. A pattern of one of the three supported variants that satisfies the
  invariants the renderer relies on (at least one variable, exactly one for
  \<^verbatim>\<open>SingularPattern\<close>, no variable beyond two dimensions, the first variable indexed along
  every loop) renders, and the rendering has exactly as many read statements as the
  pattern has variables.
\<close>

theorem read_statement_count:
  assumes "supported_pattern p"
  shows "\<exists>lines. render_pattern cfg p = Inr lines
           \<and> length (filter is_read_statement lines) = length (all_vars p)"
proof (cases p)
  case (SingularPattern vs)
  with assms obtain rv where vs: "vs = [rv]" and "dim_num rv \<le> 2"
    by (cases vs) auto
  then obtain decls where d: "comprehension generate_declaration (rv # []) = Inr decls"
    using declarations_return [of "[rv]"] by auto
  show ?thesis
    unfolding SingularPattern vs
    using render_singular [OF d, of cfg] declarations_not_read [OF d]
    by (simp add: read_statement_input_code)
next
  case (ParallelPattern vs)
  with assms obtain rv rest d1 where vs: "vs = rv # rest" and f: "first_index rv = Some d1"
    and "\<forall>v\<in>set (rv # rest). dim_num v \<le> 2"
    by (cases vs) auto
  then obtain decls where d: "comprehension generate_declaration (rv # rest) = Inr decls"
    using declarations_return by blast
  show ?thesis
    unfolding ParallelPattern vs
    using render_parallel [OF d f, of cfg] declarations_not_read [OF d]
    by (simp add: not_read_statement reads_all_read
          read_statement_indented read_statement_input_code)
next
  case (TwoDimensionalPattern vs)
  with assms obtain rv rest d1 d2 where vs: "vs = rv # rest"
    and f: "first_index rv = Some d1" and s: "second_index rv = Some d2"
    and "\<forall>v\<in>set (rv # rest). dim_num v \<le> 2"
    by (cases vs) auto
  then obtain decls where d: "comprehension generate_declaration (rv # rest) = Inr decls"
    using declarations_return by blast
  show ?thesis
    unfolding TwoDimensionalPattern vs
    using render_two_dimensional [OF d f s, of cfg] declarations_not_read [OF d]
    by (simp add: not_read_statement reads_all_read2
          read_statement_indented read_statement_input_code)
next
  case (OtherPattern vs)
  with assms show ?thesis by simp
qed

theorem read_statement_count_witness:
  "supported_pattern (ParallelPattern [var_A, var_A])
   \<and> (\<exists>lines. render_pattern example_config (ParallelPattern [var_A, var_A]) = Inr lines
         \<and> length (filter is_read_statement lines) = 2)"
  using read_statement_count [of "ParallelPattern [var_A, var_A]" example_config]
  by (simp add: var_A_def numeral_2_eq_2)

text \<open>
  Claim C8. Without a format, \<^verbatim>\<open>generate_parameters\<close> returns (it does not raise) the
  dictionary whose only key is \<^verbatim>\<open>prediction_success\<close>, with the value \<^verbatim>\<open>False\<close>; the keys
  \<^verbatim>\<open>formal_arguments\<close>, \<^verbatim>\<open>actual_arguments\<close> and \<^verbatim>\<open>input_part\<close> are absent.
\<close>

theorem absent_format_result:
  "generate_parameters cfg None = Inr [(''prediction_success'', PyBool False)]
   \<and> (\<exists>params. generate_parameters cfg None = Inr params
         \<and> map_of params ''prediction_success'' = Some (PyBool False)
         \<and> map_of params ''formal_arguments'' = None
         \<and> map_of params ''actual_arguments'' = None
         \<and> map_of params ''input_part'' = None
         \<and> fst ` set params = {''prediction_success''})"
  by (simp add: generate_parameters_def)

text \<open>
  Claim C9. Whenever the code parameters are generated, with or without a format,
  \<^verbatim>\<open>main\<close> hands the template engine the constants \<^verbatim>\<open>mod\<close>, \<^verbatim>\<open>yes_str\<close> and \<^verbatim>\<open>no_str\<close> of
  its arguments unchanged, next to the code parameters: no key occurs twice, and neither
  group hides a key of the other.
\<close>

theorem constants_forwarded:
  assumes "generate_parameters (config args) (format args) = Inr code_parameters"
  shows "\<exists>kwargs.
           main render args = Inr (render (template args) kwargs)
           \<and> kwargs = [(''mod'', mod_value (constants args)),
                        (''yes_str'', yes_str (constants args)),
                        (''no_str'', no_str (constants args))] @ code_parameters
           \<and> distinct (map fst kwargs)
           \<and> map_of kwargs ''mod'' = Some (mod_value (constants args))
           \<and> map_of kwargs ''yes_str'' = Some (yes_str (constants args))
           \<and> map_of kwargs ''no_str'' = Some (no_str (constants args))
           \<and> (\<forall>key\<in>set (map fst code_parameters). map_of kwargs key = map_of code_parameters key)"
proof -
  let ?kwargs = "[(''mod'', mod_value (constants args)),
                   (''yes_str'', yes_str (constants args)),
                   (''no_str'', no_str (constants args))] @ code_parameters"
  note keys = generate_parameters_keys [OF assms]
  have "main render args = Inr (render (template args) ?kwargs)"
    using assms by (simp add: main_def)
  moreover have "distinct (map fst ?kwargs)"
    using keys by (elim disjE) simp_all
  moreover have "map_of ?kwargs ''mod'' = Some (mod_value (constants args))"
    "map_of ?kwargs ''yes_str'' = Some (yes_str (constants args))"
    "map_of ?kwargs ''no_str'' = Some (no_str (constants args))"
    by simp_all
  moreover have "\<forall>key\<in>set (map fst code_parameters).
      map_of ?kwargs key = map_of code_parameters key"
    using keys by (elim disjE) simp_all
  ultimately show ?thesis by blast
qed

theorem constants_forwarded_witness:
  "main example_render (example_args None) = Inr ''Yes''
   \<and> main example_render (example_args (Some \<lparr>sequence = [SingularPattern [var_N]]\<rparr>)) =
       Inr ''Yes''"
proof -
  have a: "generate_parameters (config (example_args None)) (format (example_args None)) =
      Inr [(''prediction_success'', PyBool False)]"
    by (simp add: example_args_def generate_parameters_def)
  have i: "indent example_config (Suc 0) = ''    ''"
    by (simp add: example_config_def eval_nat_numeral)
  have b: "generate_parameters
        (config (example_args (Some \<lparr>sequence = [SingularPattern [var_N]]\<rparr>)))
        (format (example_args (Some \<lparr>sequence = [SingularPattern [var_N]]\<rparr>))) =
      Inr [(''formal_arguments'', PyStr ''N: Long''), (''actual_arguments'', PyStr ''N''),
           (''input_part'', PyStr (''var N: Long'' @ [CHR 0x0A] @ ''    N = sc.nextLong()'')),
           (''prediction_success'', PyBool True)]"
    by (simp add: example_args_def generate_parameters_def input_part_def render_pattern_def
          generate_declaration_def get_declaration_type_def var_N_def formal_arguments_def
          actual_arguments_def Format_all_vars_def input_code_for_var_def get_var_name_def i)
  have "main example_render (example_args None) = Inr ''Yes''"
    using constants_forwarded [OF a, of example_render]
    by (simp add: example_args_def example_render_def)
  moreover have
    "main example_render (example_args (Some \<lparr>sequence = [SingularPattern [var_N]]\<rparr>)) =
       Inr ''Yes''"
    using constants_forwarded [OF b, of example_render]
    by (simp add: example_args_def example_render_def)
  ultimately show ?thesis by blast
qed

text \<open>
  Claim C10. Rendering a pattern without variables raises \<^verbatim>\<open>IndexError\<close> at the access to
  the representative variable, whatever the variant; rendering a pattern with at least
  one variable never raises \<^verbatim>\<open>IndexError\<close>.
\<close>

theorem representative_access:
  "(all_vars p = [] \<longrightarrow> render_pattern cfg p = Inl IndexError)
   \<and> (all_vars p \<noteq> [] \<longrightarrow> render_pattern cfg p \<noteq> Inl IndexError)"
proof (intro conjI impI)
  assume "all_vars p = []"
  then show "render_pattern cfg p = Inl IndexError"
    by (simp add: render_pattern_def)
next
  assume ne: "all_vars p \<noteq> []"
  show "render_pattern cfg p \<noteq> Inl IndexError"
  proof (cases "comprehension generate_declaration (all_vars p)")
    case (Inl e)
    then obtain u where "generate_declaration u = Inl e"
      using comprehension_Inl by blast
    then have "e = NotImplementedError"
      using generate_declaration_error by blast
    with Inl show ?thesis by (simp add: render_pattern_def)
  next
    case (Inr ds)
    from ne obtain r rest where "all_vars p = r # rest"
      by (cases "all_vars p") auto
    with Inr show ?thesis
      by (cases p; cases "first_index r"; cases "second_index r")
         (simp_all add: render_pattern_def)
  qed
qed

theorem representative_access_witness:
  "render_pattern example_config (ParallelPattern []) = Inl IndexError
   \<and> render_pattern example_config (ParallelPattern [var_A]) \<noteq> Inl IndexError"
  using representative_access [of "ParallelPattern []" example_config]
    representative_access [of "ParallelPattern [var_A]" example_config]
  by simp

end
